theory Spec2Isabelle
  imports Main "HOL-Library.Word"
begin

unbundle bit_operations_syntax

section \<open>The xterm cell helpers of plugin-bash-like\<close>

text \<open>
  A shallow embedding of \<^verbatim>\<open>plugins/plugin-bash-like/src/pty/xterm-helpers/index.ts\<close>.
  A TypeScript \<^verbatim>\<open>number\<close> that holds a colour mode or a colour value is an \<^typ>\<open>int\<close>:
  the model covers the integer values of a \<^verbatim>\<open>number\<close> and computes on them exactly, so
  fractions, NaN and the infinities are outside it. A \<^verbatim>\<open>number\<close> is a double, whose
  arithmetic on integers is exact as long as every operand and result is at most \<open>2^53\<close>
  in absolute value; beyond that the source rounds and the model does not. The theorems
  keep to the exact range: the one that ranges over unbounded values carries the bound as a
  hypothesis.
  The bitwise operators of the language first convert their operands to 32-bit integers;
  these are \<^typ>\<open>32 word\<close>.
\<close>

subsection \<open>The language's built-in operations\<close>

text \<open>
  A function typed \<^verbatim>\<open>string\<close> whose body reads an array out of range returns
  \<^verbatim>\<open>undefined\<close>; a result is therefore a string or \<^verbatim>\<open>undefined\<close>.
\<close>

datatype js_string = Str string | Undefined

text \<open>The truthiness that \<^verbatim>\<open>if (s)\<close> tests: a string is truthy unless it is empty.\<close>

fun truthy :: "js_string \<Rightarrow> bool" where
  "truthy (Str s) = (s \<noteq> [])"
| "truthy Undefined = False"

text \<open>ToInt32 on an integer-valued number: the value modulo \<open>2^32\<close>, read as two's complement.\<close>

definition toInt32 :: "int \<Rightarrow> 32 word" where
  "toInt32 x = word_of_int x"

text \<open>\<^verbatim>\<open>x >> n\<close>: the sign-propagating shift of ToInt32 x by the low five bits of n.\<close>

definition js_shr :: "int \<Rightarrow> int \<Rightarrow> int" where
  "js_shr x n = sint (signed_drop_bit (unat (toInt32 n AND 31)) (toInt32 x))"

text \<open>\<^verbatim>\<open>x & y\<close> on the 32-bit conversions of both operands.\<close>

definition js_and :: "int \<Rightarrow> int \<Rightarrow> int" where
  "js_and x y = sint (toInt32 x AND toInt32 y)"

text \<open>\<^verbatim>\<open>a % b\<close>: the remainder has the sign of the dividend.\<close>

definition js_rem :: "int \<Rightarrow> int \<Rightarrow> int" where
  "js_rem a b = sgn a * (\<bar>a\<bar> mod \<bar>b\<bar>)"

text \<open>\<^verbatim>\<open>Math.floor(a / b)\<close> on integers, for a divisor that is not zero.\<close>

definition js_floor_div :: "int \<Rightarrow> int \<Rightarrow> int" where
  "js_floor_div a b = a div b"

definition hexDigit :: "nat \<Rightarrow> char" where
  "hexDigit d = ''0123456789abcdef'' ! d"

function hexNat :: "nat \<Rightarrow> string" where
  "hexNat n = (if n < 16 then [hexDigit n] else hexNat (n div 16) @ [hexDigit (n mod 16)])"
  by pat_completeness auto
termination
  by (relation "measure (\<lambda>n. n)") auto

text \<open>\<^verbatim>\<open>x.toString(16)\<close> on an integer: lower-case digits, no leading zero, a minus sign
  before the digits of a negative number.\<close>

definition toString16 :: "int \<Rightarrow> string" where
  "toString16 x = (if x < 0 then CHR ''-'' # hexNat (nat (- x)) else hexNat (nat x))"

text \<open>\<^verbatim>\<open>xs.join(sep)\<close> on an array of strings.\<close>

fun join :: "string \<Rightarrow> string list \<Rightarrow> string" where
  "join sep [] = []"
| "join sep [x] = x"
| "join sep (x # y # ys) = x @ sep @ join sep (y # ys)"

subsection \<open>Colours\<close>

text \<open>The constants of \<^verbatim>\<open>const enum ColorMode\<close>.\<close>

definition DEFAULT :: int where
  "DEFAULT = 0"

definition PALETTE :: int where
  "PALETTE = 1"

definition RGB :: int where
  "RGB = 2"

definition colorPalette :: "string list" where
  "colorPalette =
    [''#000000'', ''#cd0000'', ''#00cd00'', ''#cdcd00'', ''#0000ee'', ''#cd00cd'', ''#00cdcd'', ''#e5e5e5'',
     ''#7f7f7f'', ''#ff0000'', ''#00ff00'', ''#ffff00'', ''#5c5cff'', ''#ff00ff'', ''#00ffff'', ''#ffffff'']"

definition rgbToHex :: "int \<Rightarrow> int \<Rightarrow> int \<Rightarrow> string" where
  "rgbToHex r g b =
     ''#'' @ join ''''
       (map (\<lambda>x. let hex = toString16 x in if length hex = 1 then ''0'' @ hex else hex) [r, g, b])"

text \<open>
  \<^verbatim>\<open>colorPalette[color]\<close> is reached for every colour below 16, negative ones too; an
  index below 0 reads \<^verbatim>\<open>undefined\<close>. In the grey branch the source computes
  \<^verbatim>\<open>(color - 232) * 10 + 8\<close> in doubles: the integer below is that value whenever it is at
  most \<open>2^53\<close>, which is for every colour up to 900719925474330.
\<close>

definition getColor :: "int \<Rightarrow> int \<Rightarrow> js_string" where
  "getColor colorMode color =
     (if colorMode = DEFAULT then Str ''''
      else if colorMode = PALETTE then
        (if color < 16 then
           (if 0 \<le> color then Str (colorPalette ! nat color) else Undefined)
         else if color < 232 then
           (let c = color - 16;
                r = js_floor_div c 36;
                g = js_floor_div (js_rem c 36) 6;
                b = js_rem c 6
            in Str (rgbToHex
                 (if r \<noteq> 0 then r * 40 + 55 else 0)
                 (if g \<noteq> 0 then g * 40 + 55 else 0)
                 (if b \<noteq> 0 then b * 40 + 55 else 0)))
         else
           (let gray = (color - 232) * 10 + 8
            in Str (rgbToHex gray gray gray)))
      else if colorMode = RGB then
        (let r = js_and (js_shr color 16) 255;
             g = js_and (js_shr color 8) 255;
             b = js_and color 255
         in Str (rgbToHex r g b))
      else Str '''')"

subsection \<open>Cells\<close>

text \<open>
  \<^verbatim>\<open>IBufferCell\<close> is declared by the terminal library; the helper reads it through eleven
  accessors only. A cell is the record of what they return: for the seven attribute
  accessors the truthiness of the result, which is all the helper tests. The accessors
  are taken to return a value; the helper has no handler of its own for one that throws.
\<close>

record cell =
  isBold :: bool
  isItalic :: bool
  isDim :: bool
  isUnderline :: bool
  isStrikethrough :: bool
  isBlink :: bool
  isInvisible :: bool
  getFgColorMode :: int
  getFgColor :: int
  getBgColorMode :: int
  getBgColor :: int
  getChars :: string

record render_style =
  classList :: string
  style :: string
  textContent :: string

text \<open>\<^verbatim>\<open>xs.push(x)\<close>, with the array passed and returned.\<close>

definition push :: "string list \<Rightarrow> string \<Rightarrow> string list" where
  "push xs x = xs @ [x]"

text \<open>The template literals are only evaluated on a truthy colour, which is a string.\<close>

fun template :: "string \<Rightarrow> js_string \<Rightarrow> string" where
  "template prefix (Str s) = prefix @ s"
| "template prefix Undefined = prefix @ ''undefined''"

definition prepareCellForDomRenderer :: "cell \<Rightarrow> render_style" where
  "prepareCellForDomRenderer c =
     (let classList0 = [];
          styles0 = [];
          classList1 = (if isBold c then push classList0 ''xterm-bold'' else classList0);
          classList2 = (if isItalic c then push classList1 ''xterm-italic'' else classList1);
          classList3 = (if isDim c then push classList2 ''xterm-dim'' else classList2);
          classList4 = (if isUnderline c then push classList3 ''xterm-underline'' else classList3);
          classList5 = (if isStrikethrough c then push classList4 ''xterm-strikethrough'' else classList4);
          classList6 = (if isBlink c then push classList5 ''xterm-blink'' else classList5);
          classList7 = (if isInvisible c then push classList6 ''xterm-invisible'' else classList6);
          fgColor = getColor (getFgColorMode c) (getFgColor c);
          styles1 = (if truthy fgColor then push styles0 (template ''color: '' fgColor) else styles0);
          bgColor = getColor (getBgColorMode c) (getBgColor c);
          styles2 = (if truthy bgColor then push styles1 (template ''background-color: '' bgColor) else styles1)
      in \<lparr> classList = join '' '' classList7,
           style = join ''; '' styles2,
           textContent = getChars c \<rparr>)"

subsection \<open>The specification's vocabulary\<close>

text \<open>
  The specification describes a resolved colour as \<open>#\<close> followed by three channels, each
  written as two lower-case hexadecimal digits. These definitions follow its words; the
  theorems below compare them with what \<open>rgbToHex\<close> and \<open>getColor\<close> compute.
\<close>

definition spec_hexByte :: "int \<Rightarrow> string" where
  "spec_hexByte x = [hexDigit (nat x div 16), hexDigit (nat x mod 16)]"

definition spec_hex :: "int \<Rightarrow> int \<Rightarrow> int \<Rightarrow> string" where
  "spec_hex r g b = CHR ''#'' # spec_hexByte r @ spec_hexByte g @ spec_hexByte b"

text \<open>The six-level ramp of the colour cube: 0, 95, 135, 175, 215, 255.\<close>

definition spec_axis :: "int \<Rightarrow> int" where
  "spec_axis k = (if k = 0 then 0 else k * 40 + 55)"

definition hexDigits :: "char set" where
  "hexDigits = set ''0123456789abcdef''"

text \<open>The class tokens in the order of the attribute checks, each kept when its check holds.\<close>

definition spec_classTokens :: "cell \<Rightarrow> string list" where
  "spec_classTokens c =
     map snd (filter fst
       [(isBold c, ''xterm-bold''),
        (isItalic c, ''xterm-italic''),
        (isDim c, ''xterm-dim''),
        (isUnderline c, ''xterm-underline''),
        (isStrikethrough c, ''xterm-strikethrough''),
        (isBlink c, ''xterm-blink''),
        (isInvisible c, ''xterm-invisible'')])"

subsection \<open>A sample cell\<close>

text \<open>A cell with no attribute set, both colours in mode DEFAULT and the text \<open>x\<close>; the
  examples below are updates of it.\<close>

definition blankCell :: cell where
  "blankCell =
     \<lparr> isBold = False, isItalic = False, isDim = False, isUnderline = False,
       isStrikethrough = False, isBlink = False, isInvisible = False,
       getFgColorMode = 0, getFgColor = 0, getBgColorMode = 0, getBgColor = 0,
       getChars = ''x'' \<rparr>"

section \<open>Hexadecimal digits\<close>

declare hexNat.simps [simp del]

lemma hexNat_digit: "n < 16 \<Longrightarrow> hexNat n = [hexDigit n]"
  by (simp add: hexNat.simps)

lemma hexNat_two:
  "16 \<le> n \<Longrightarrow> n < 256 \<Longrightarrow> hexNat n = [hexDigit (n div 16), hexDigit (n mod 16)]"
  by (subst hexNat.simps) (simp add: hexNat_digit less_mult_imp_div_less)

lemma hexNat_nonempty: "hexNat n \<noteq> []"
  by (subst hexNat.simps) simp

lemma hexNat_long: "16 \<le> n \<Longrightarrow> 2 \<le> length (hexNat n)"
proof -
  assume big: "16 \<le> n"
  obtain d ds where "hexNat (n div 16) = d # ds"
    using hexNat_nonempty [of "n div 16"] by (cases "hexNat (n div 16)") auto
  with big show ?thesis
    by (subst hexNat.simps) simp
qed

lemma hexDigit_zero: "hexDigit 0 = CHR ''0''"
  by (simp add: hexDigit_def)

lemma hexDigit_in: "d < 16 \<Longrightarrow> hexDigit d \<in> hexDigits"
  unfolding hexDigit_def hexDigits_def by (rule nth_mem) simp

text \<open>The padding of \<open>rgbToHex\<close> on a byte gives the two digits of the byte.\<close>

lemma pad_byte:
  assumes "0 \<le> x" and "x < 256"
  shows "(let hex = toString16 x in if length hex = 1 then ''0'' @ hex else hex) = spec_hexByte x"
proof (cases "x < 16")
  case True
  with assms have "nat x < 16" by simp
  then show ?thesis
    using assms by (simp add: toString16_def hexNat_digit spec_hexByte_def hexDigit_zero)
next
  case False
  with assms have "16 \<le> nat x" "nat x < 256" by simp_all
  then show ?thesis
    using assms by (simp add: toString16_def hexNat_two spec_hexByte_def)
qed

lemma rgbToHex_bytes:
  assumes "0 \<le> r" "r < 256" "0 \<le> g" "g < 256" "0 \<le> b" "b < 256"
  shows "rgbToHex r g b = spec_hex r g b"
  using assms pad_byte [of r] pad_byte [of g] pad_byte [of b]
  by (simp add: rgbToHex_def spec_hex_def Let_def)

text \<open>From 16 on a number has two digits or more, and the padding leaves it alone.\<close>

lemma pad_long:
  assumes "16 \<le> x"
  shows "(let hex = toString16 x in if length hex = 1 then ''0'' @ hex else hex) = toString16 x"
proof -
  from assms have "2 \<le> length (hexNat (nat x))"
    by (intro hexNat_long) simp
  with assms show ?thesis
    by (simp add: toString16_def Let_def)
qed

lemma rgbToHex_long:
  assumes "16 \<le> r" "16 \<le> g" "16 \<le> b"
  shows "rgbToHex r g b = CHR ''#'' # toString16 r @ toString16 g @ toString16 b"
  using pad_long [OF assms(1)] pad_long [OF assms(2)] pad_long [OF assms(3)]
  by (simp add: rgbToHex_def Let_def)

lemma spec_hexByte_digits: "0 \<le> x \<Longrightarrow> x < 256 \<Longrightarrow> set (spec_hexByte x) \<subseteq> hexDigits"
  by (simp add: spec_hexByte_def hexDigit_in less_mult_imp_div_less)

lemma spec_hex_shape:
  assumes "0 \<le> r" "r < 256" "0 \<le> g" "g < 256" "0 \<le> b" "b < 256"
  shows "\<exists>ds. spec_hex r g b = CHR ''#'' # ds \<and> length ds = 6 \<and> set ds \<subseteq> hexDigits"
  using assms spec_hexByte_digits [of r] spec_hexByte_digits [of g] spec_hexByte_digits [of b]
  by (simp add: spec_hex_def) (simp add: spec_hexByte_def)

section \<open>The branches of getColor\<close>

lemma gray_branch:
  "232 \<le> v \<Longrightarrow>
   getColor PALETTE v =
     Str (rgbToHex ((v - 232) * 10 + 8) ((v - 232) * 10 + 8) ((v - 232) * 10 + 8))"
  by (simp add: getColor_def PALETTE_def DEFAULT_def Let_def)

lemma js_rem_nonneg: "0 \<le> a \<Longrightarrow> js_rem a b = a mod \<bar>b\<bar>"
  by (cases "a = 0") (simp_all add: js_rem_def)

lemma axis_eq: "(if k \<noteq> 0 then k * 40 + 55 else 0) = spec_axis k"
  by (simp add: spec_axis_def)

lemma cube_branch:
  assumes "16 \<le> v" "v < 232"
  shows "getColor PALETTE v =
    Str (rgbToHex (spec_axis ((v - 16) div 36))
                  (spec_axis (((v - 16) mod 36) div 6))
                  (spec_axis ((v - 16) mod 6)))"
proof -
  from assms have "0 \<le> v - 16"
    by simp
  then have rem: "js_rem (v - 16) 36 = (v - 16) mod 36" "js_rem (v - 16) 6 = (v - 16) mod 6"
    by (simp_all add: js_rem_nonneg)
  have mode: "PALETTE \<noteq> DEFAULT"
    by (simp add: PALETTE_def DEFAULT_def)
  from assms have range: "\<not> v < 16"
    by simp
  show ?thesis
    unfolding getColor_def Let_def js_floor_div_def rem axis_eq
    by (simp only: mode range assms(2) if_False if_True refl)
qed

lemma spec_axis_range: "0 \<le> k \<Longrightarrow> k < 6 \<Longrightarrow> 0 \<le> spec_axis k \<and> spec_axis k < 256"
  by (simp add: spec_axis_def)

lemma cube_axes:
  fixes c :: int
  assumes "0 \<le> c" "c < 216"
  shows "0 \<le> c div 36 \<and> c div 36 < 6"
    and "0 \<le> (c mod 36) div 6 \<and> (c mod 36) div 6 < 6"
    and "0 \<le> c mod 6 \<and> c mod 6 < 6"
  using assms by simp_all linarith+

lemma cube_hex:
  assumes "16 \<le> v" "v < 232"
  shows "getColor PALETTE v =
    Str (spec_hex (spec_axis ((v - 16) div 36))
                  (spec_axis (((v - 16) mod 36) div 6))
                  (spec_axis ((v - 16) mod 6)))"
proof -
  from assms have c: "0 \<le> v - 16" "v - 16 < 216"
    by simp_all
  show ?thesis
    using cube_axes [OF c] by (simp add: cube_branch [OF assms] rgbToHex_bytes spec_axis_range)
qed

lemma gray_hex:
  assumes "232 \<le> v" "v < 256"
  shows "getColor PALETTE v =
    Str (spec_hex ((v - 232) * 10 + 8) ((v - 232) * 10 + 8) ((v - 232) * 10 + 8))"
  using assms by (simp add: gray_branch rgbToHex_bytes)

section \<open>The bytes of an RGB value\<close>

lemma mask8: "(255 :: 32 word) = mask 8"
  by (simp add: mask_eq_exp_minus_1)

text \<open>Shifting right by at most 24 and masking with 255 reads eight bits of the number,
  whatever its sign and its bits from 32 on.\<close>

lemma byte_bits:
  "k \<le> 24 \<Longrightarrow>
   sint (signed_drop_bit k (word_of_int v :: 32 word) AND mask 8) = take_bit 8 (drop_bit k v)"
  by (intro bit_eqI) (auto simp: bit_simps)

lemma shift_amount: "unat (toInt32 16 AND 31) = 16" "unat (toInt32 8 AND 31) = 8"
  by (simp_all add: toInt32_def)

lemma byte16: "js_and (js_shr v 16) 255 = take_bit 8 (drop_bit 16 v)"
  by (simp add: js_and_def js_shr_def shift_amount) (simp add: toInt32_def mask8 byte_bits)

lemma byte8: "js_and (js_shr v 8) 255 = take_bit 8 (drop_bit 8 v)"
  by (simp add: js_and_def js_shr_def shift_amount) (simp add: toInt32_def mask8 byte_bits)

lemma byte0: "js_and v 255 = take_bit 8 v"
  using byte_bits [of 0 v] by (simp add: js_and_def toInt32_def mask8)

lemma rgb_bits:
  "getColor RGB v =
     Str (rgbToHex (take_bit 8 (drop_bit 16 v)) (take_bit 8 (drop_bit 8 v)) (take_bit 8 v))"
proof -
  have mode: "RGB \<noteq> DEFAULT" "RGB \<noteq> PALETTE"
    by (simp_all add: RGB_def DEFAULT_def PALETTE_def)
  show ?thesis
    unfolding getColor_def Let_def byte16 byte8
    by (simp only: mode if_False if_True refl byte0)
qed

lemma take_bit8_range: "0 \<le> take_bit 8 (k :: int) \<and> take_bit 8 k < 256"
  by (simp add: take_bit_eq_mod)

lemma rgb_branch:
  "getColor RGB v = Str (spec_hex ((v div 65536) mod 256) ((v div 256) mod 256) (v mod 256))"
proof -
  have "getColor RGB v =
      Str (spec_hex (take_bit 8 (drop_bit 16 v)) (take_bit 8 (drop_bit 8 v)) (take_bit 8 v))"
    by (simp only: rgb_bits rgbToHex_bytes take_bit8_range)
  then show ?thesis
    by (simp add: take_bit_eq_mod drop_bit_eq_div)
qed

lemma rgb_low24: "getColor RGB (v mod 2 ^ 24) = getColor RGB v"
proof -
  have "take_bit 8 (drop_bit 16 (take_bit 24 v)) = take_bit 8 (drop_bit 16 v)"
       "take_bit 8 (drop_bit 8 (take_bit 24 v)) = take_bit 8 (drop_bit 8 v)"
       "take_bit 8 (take_bit 24 v) = take_bit 8 v"
    by (rule bit_eqI, auto simp: bit_simps)+
  then have "getColor RGB (take_bit 24 v) = getColor RGB v"
    by (simp only: rgb_bits)
  then show ?thesis
    by (simp add: take_bit_eq_mod)
qed

text \<open>A 24-bit value is the three bytes put back together.\<close>

lemma three_bytes:
  fixes v :: int
  assumes "0 \<le> v" "v < 2 ^ 24"
  shows "v = ((v div 65536) mod 256) * 65536 + ((v div 256) mod 256) * 256 + v mod 256"
proof -
  define d q m l
    where "d = v div 256" and "q = v div 65536" and "m = d mod 256" and "l = v mod 256"
  have top: "v div 65536 mod 256 = q"
    using assms by (simp add: q_def)
  have "q = d div 256"
    by (simp add: q_def d_def zdiv_zmult2_eq)
  then have d: "d = q * 256 + m"
    by (simp add: m_def)
  have "v = d * 256 + l"
    by (simp add: d_def l_def)
  then have e: "v = q * 65536 + m * 256 + l"
    by (simp add: d algebra_simps)
  show ?thesis
    by (subst top) (rule e [unfolded m_def d_def l_def])
qed

lemma ansi_branch: "0 \<le> v \<Longrightarrow> v < 16 \<Longrightarrow> getColor PALETTE v = Str (colorPalette ! nat v)"
  by (simp add: getColor_def PALETTE_def DEFAULT_def)

section \<open>The shape of a resolved colour\<close>

lemma palette_shape:
  "\<forall>s \<in> set colorPalette. \<exists>ds. s = CHR ''#'' # ds \<and> length ds = 6 \<and> set ds \<subseteq> hexDigits"
  by (simp add: colorPalette_def hexDigits_def)

lemma ansi_shape:
  assumes "0 \<le> v" "v < 16"
  shows "\<exists>ds. getColor PALETTE v = Str (CHR ''#'' # ds) \<and> length ds = 6 \<and> set ds \<subseteq> hexDigits"
proof -
  from assms have "colorPalette ! nat v \<in> set colorPalette"
    by (intro nth_mem) (simp add: colorPalette_def)
  with palette_shape obtain ds
    where "colorPalette ! nat v = CHR ''#'' # ds" "length ds = 6" "set ds \<subseteq> hexDigits"
    by blast
  with assms show ?thesis
    by (simp add: ansi_branch)
qed

lemma cube_shape:
  assumes "16 \<le> v" "v < 232"
  shows "\<exists>ds. getColor PALETTE v = Str (CHR ''#'' # ds) \<and> length ds = 6 \<and> set ds \<subseteq> hexDigits"
proof -
  from assms have c: "0 \<le> v - 16" "v - 16 < 216"
    by simp_all
  note ax = cube_axes [OF c]
  have "\<exists>ds. spec_hex (spec_axis ((v - 16) div 36)) (spec_axis (((v - 16) mod 36) div 6))
                (spec_axis ((v - 16) mod 6)) = CHR ''#'' # ds \<and> length ds = 6 \<and> set ds \<subseteq> hexDigits"
    using ax by (intro spec_hex_shape) (simp_all only: spec_axis_range)
  then show ?thesis
    by (simp only: cube_hex [OF assms] js_string.inject)
qed

lemma gray_shape:
  assumes "232 \<le> v" "v < 256"
  shows "\<exists>ds. getColor PALETTE v = Str (CHR ''#'' # ds) \<and> length ds = 6 \<and> set ds \<subseteq> hexDigits"
proof -
  have "\<exists>ds. spec_hex ((v - 232) * 10 + 8) ((v - 232) * 10 + 8) ((v - 232) * 10 + 8)
          = CHR ''#'' # ds \<and> length ds = 6 \<and> set ds \<subseteq> hexDigits"
    using assms by (intro spec_hex_shape) simp_all
  then show ?thesis
    by (simp only: gray_hex [OF assms] js_string.inject)
qed

lemma rgb_shape:
  "\<exists>ds. getColor RGB v = Str (CHR ''#'' # ds) \<and> length ds = 6 \<and> set ds \<subseteq> hexDigits"
proof -
  have "\<exists>ds. spec_hex ((v div 65536) mod 256) ((v div 256) mod 256) (v mod 256)
          = CHR ''#'' # ds \<and> length ds = 6 \<and> set ds \<subseteq> hexDigits"
    by (intro spec_hex_shape) simp_all
  then show ?thesis
    by (simp only: rgb_branch js_string.inject)
qed

section \<open>The fields of the render style\<close>

lemma push_if: "(if b then push xs t else xs) = xs @ (if b then [t] else [])"
  by (simp add: push_def)

lemma tokens_Cons:
  "map snd (filter fst ((b, t) # xs)) = (if b then [t] else []) @ map snd (filter fst xs)"
  by simp

lemma prepare_classList:
  "classList (prepareCellForDomRenderer c) = join '' '' (spec_classTokens c)"
proof -
  have "spec_classTokens c =
      (if isBold c then [''xterm-bold''] else []) @
      (if isItalic c then [''xterm-italic''] else []) @
      (if isDim c then [''xterm-dim''] else []) @
      (if isUnderline c then [''xterm-underline''] else []) @
      (if isStrikethrough c then [''xterm-strikethrough''] else []) @
      (if isBlink c then [''xterm-blink''] else []) @
      (if isInvisible c then [''xterm-invisible''] else [])"
    unfolding spec_classTokens_def
    by (simp only: tokens_Cons list.map(1) filter.simps(1) append_Nil2)
  moreover have "classList (prepareCellForDomRenderer c) = join '' ''
     ((if isBold c then [''xterm-bold''] else []) @
      (if isItalic c then [''xterm-italic''] else []) @
      (if isDim c then [''xterm-dim''] else []) @
      (if isUnderline c then [''xterm-underline''] else []) @
      (if isStrikethrough c then [''xterm-strikethrough''] else []) @
      (if isBlink c then [''xterm-blink''] else []) @
      (if isInvisible c then [''xterm-invisible''] else []))"
    unfolding prepareCellForDomRenderer_def Let_def push_if
    by (simp only: render_style.simps append_Nil append_assoc)
  ultimately show ?thesis
    by (simp only:)
qed

lemma prepare_style:
  "style (prepareCellForDomRenderer c) =
     join ''; ''
       ((if truthy (getColor (getFgColorMode c) (getFgColor c))
         then [template ''color: '' (getColor (getFgColorMode c) (getFgColor c))] else []) @
        (if truthy (getColor (getBgColorMode c) (getBgColor c))
         then [template ''background-color: '' (getColor (getBgColorMode c) (getBgColor c))]
         else []))"
  unfolding prepareCellForDomRenderer_def Let_def push_if
  by (simp only: render_style.simps append_Nil)

lemma prepare_textContent: "textContent (prepareCellForDomRenderer c) = getChars c"
  unfolding prepareCellForDomRenderer_def Let_def
  by (simp only: render_style.simps)

lemma sample_colours:
  "getColor RGB 0xFF8000 = Str ''#ff8000''"
  "getColor PALETTE 1 = Str ''#cd0000''"
  "getColor PALETTE 9 = Str ''#ff0000''"
  "getColor PALETTE (- 1) = Undefined"
  "getColor 0 0 = Str ''''"
  by (simp_all add: rgb_branch spec_hex_def spec_hexByte_def hexDigit_def ansi_branch colorPalette_def)
     (simp_all add: getColor_def PALETTE_def DEFAULT_def)

section \<open>The colour resolver\<close>

text \<open>
  C1, as the specification states it: every PALETTE value from 256 on resolves to the
  empty string. The source has no upper bound on the grey ramp: every value from 232 on
  takes the last branch of the PALETTE case. At 256 the grey level is 248 and the result
  is \<open>#f8f8f8\<close>, not the empty string.
\<close>

theorem getColor_palette_256_not_empty:
  "getColor PALETTE 256 = Str ''#f8f8f8'' \<and> getColor PALETTE 256 \<noteq> Str ''''"
  by (simp add: gray_branch rgbToHex_long) (simp add: toString16_def hexNat.simps hexDigit_def)

text \<open>
  C1, amended: every PALETTE value from 256 on whose grey level
  \<open>gray = (value - 232) * 10 + 8\<close> is at most \<open>2^53\<close> (a value up to 900719925474330, the
  range on which the number arithmetic of the source is exact) takes the grey branch. The
  result is \<open>#\<close> followed by three copies of the hexadecimal digits of \<open>gray\<close>, unpadded
  since \<open>gray\<close> is 248 or more, and it is never the empty string.
\<close>

theorem getColor_palette_beyond_ramp:
  "256 \<le> v \<Longrightarrow> (v - 232) * 10 + 8 \<le> 2 ^ 53 \<Longrightarrow>
     getColor PALETTE v =
       Str (CHR ''#'' # toString16 ((v - 232) * 10 + 8)
                      @ toString16 ((v - 232) * 10 + 8)
                      @ toString16 ((v - 232) * 10 + 8))
     \<and> getColor PALETTE v \<noteq> Str ''''"
  by (simp add: gray_branch rgbToHex_long)

theorem getColor_palette_beyond_ramp_witness:
  "(256::int) \<le> 257 \<and> ((257::int) - 232) * 10 + 8 \<le> 2 ^ 53
   \<and> getColor PALETTE 257 = Str ''#102102102''
   \<and> getColor PALETTE 257 \<noteq> Str ''''"
  using getColor_palette_beyond_ramp [of 257]
  by (simp add: toString16_def hexNat.simps hexDigit_def)

text \<open>
  C2: for a PALETTE value in [16,232), with \<open>c = value - 16\<close>, the result is the hex
  composition of the ramp levels of \<open>c div 36\<close>, \<open>(c mod 36) div 6\<close> and \<open>c mod 6\<close>;
  16 gives \<open>#000000\<close> and 231 gives \<open>#ffffff\<close>.
\<close>

theorem getColor_palette_cube:
  "(16 \<le> v \<and> v < 232 \<longrightarrow>
      getColor PALETTE v =
        Str (spec_hex (spec_axis ((v - 16) div 36))
                      (spec_axis (((v - 16) mod 36) div 6))
                      (spec_axis ((v - 16) mod 6))))
   \<and> getColor PALETTE 16 = Str ''#000000''
   \<and> getColor PALETTE 231 = Str ''#ffffff''"
proof (intro conjI impI)
  assume "16 \<le> v \<and> v < 232"
  then show "getColor PALETTE v =
        Str (spec_hex (spec_axis ((v - 16) div 36))
                      (spec_axis (((v - 16) mod 36) div 6))
                      (spec_axis ((v - 16) mod 6)))"
    by (simp add: cube_hex)
next
  show "getColor PALETTE 16 = Str ''#000000''"
    by (simp add: cube_hex spec_hex_def spec_hexByte_def spec_axis_def hexDigit_def)
next
  show "getColor PALETTE 231 = Str ''#ffffff''"
    by (simp add: cube_hex spec_hex_def spec_hexByte_def spec_axis_def hexDigit_def)
qed

theorem getColor_palette_cube_witness:
  "(16::int) \<le> 100 \<and> (100::int) < 232 \<and> getColor PALETTE 100 = Str ''#878700''"
  using getColor_palette_cube [of 100]
  by (simp add: spec_hex_def spec_hexByte_def spec_axis_def hexDigit_def)

text \<open>
  C3: for a PALETTE value in [232,256) the three channels all equal
  \<open>gray = (value - 232) * 10 + 8\<close>; 232 gives \<open>#080808\<close> and 255 gives \<open>#eeeeee\<close>.
\<close>

theorem getColor_palette_gray:
  "(232 \<le> v \<and> v < 256 \<longrightarrow>
      getColor PALETTE v =
        Str (spec_hex ((v - 232) * 10 + 8) ((v - 232) * 10 + 8) ((v - 232) * 10 + 8)))
   \<and> getColor PALETTE 232 = Str ''#080808''
   \<and> getColor PALETTE 255 = Str ''#eeeeee''"
  by (simp add: gray_hex) (simp add: spec_hex_def spec_hexByte_def hexDigit_def)

theorem getColor_palette_gray_witness:
  "(232::int) \<le> 240 \<and> (240::int) < 256 \<and> getColor PALETTE 240 = Str ''#585858''"
  using getColor_palette_gray [of 240]
  by (simp add: spec_hex_def spec_hexByte_def hexDigit_def)

text \<open>
  C5: for a PALETTE value in [0,16) the result is the entry of the sixteen-entry table at
  that index; 1 gives \<open>#cd0000\<close>.
\<close>

theorem getColor_palette_ansi:
  "(0 \<le> v \<and> v < 16 \<longrightarrow> getColor PALETTE v = Str (colorPalette ! nat v))
   \<and> length colorPalette = 16
   \<and> getColor PALETTE 1 = Str ''#cd0000''"
  by (simp add: getColor_def PALETTE_def DEFAULT_def) (simp add: colorPalette_def)

theorem getColor_palette_ansi_witness:
  "(0::int) \<le> 12 \<and> (12::int) < 16 \<and> getColor PALETTE 12 = Str ''#5c5cff''"
  using getColor_palette_ansi [of 12] by (simp add: colorPalette_def)

text \<open>
  C6: in mode DEFAULT the result is the empty string whatever the value, and so it is in
  every mode that is none of DEFAULT, PALETTE and RGB. \<open>getColor\<close> has no failing branch
  on these inputs: the result is a string.
\<close>

theorem getColor_default_and_unknown_mode:
  "getColor DEFAULT v = Str ''''
   \<and> (m \<noteq> DEFAULT \<and> m \<noteq> PALETTE \<and> m \<noteq> RGB \<longrightarrow> getColor m v = Str '''')"
  by (simp add: getColor_def)

theorem getColor_default_and_unknown_mode_witness:
  "(7::int) \<noteq> DEFAULT \<and> (7::int) \<noteq> PALETTE \<and> (7::int) \<noteq> RGB
   \<and> getColor 7 300 = Str '''' \<and> getColor DEFAULT 300 = Str ''''"
  using getColor_default_and_unknown_mode [of 300 7]
  by (simp add: DEFAULT_def PALETTE_def RGB_def)

text \<open>
  C4: for a 24-bit value the RGB result is the hex composition of its three packed bytes,
  red in bits 16 to 23, green in bits 8 to 15 and blue in bits 0 to 7, and the value is
  these three bytes; \<open>0xFF8000\<close> gives \<open>#ff8000\<close>.
\<close>

theorem getColor_rgb_bytes:
  "(0 \<le> v \<and> v < 2 ^ 24 \<longrightarrow>
     getColor RGB v = Str (spec_hex ((v div 65536) mod 256) ((v div 256) mod 256) (v mod 256))
     \<and> v = ((v div 65536) mod 256) * 65536 + ((v div 256) mod 256) * 256 + v mod 256)
   \<and> getColor RGB 0xFF8000 = Str ''#ff8000''"
proof (intro conjI impI)
  show "getColor RGB v = Str (spec_hex ((v div 65536) mod 256) ((v div 256) mod 256) (v mod 256))"
    by (rule rgb_branch)
next
  assume "0 \<le> v \<and> v < 2 ^ 24"
  then show "v = ((v div 65536) mod 256) * 65536 + ((v div 256) mod 256) * 256 + v mod 256"
    by (intro three_bytes) simp_all
next
  show "getColor RGB 0xFF8000 = Str ''#ff8000''"
    by (simp add: rgb_branch spec_hex_def spec_hexByte_def hexDigit_def)
qed

theorem getColor_rgb_bytes_witness:
  "(0::int) \<le> 0x123456 \<and> (0x123456::int) < 2 ^ 24 \<and> getColor RGB 0x123456 = Str ''#123456''"
  using getColor_rgb_bytes [of "0x123456"]
  by (simp add: spec_hex_def spec_hexByte_def hexDigit_def)

text \<open>
  C10: in RGB mode only the low 24 bits of the value count. For a value \<open>v\<close> with
  \<open>0 \<le> v < 2^31\<close> the result is the result at \<open>v mod 2^24\<close>, and two such values with
  the same low 24 bits have the same result.
\<close>

theorem getColor_rgb_low_24_bits:
  "0 \<le> v \<Longrightarrow> v < 2 ^ 31 \<Longrightarrow>
     getColor RGB v = getColor RGB (v mod 2 ^ 24)
     \<and> (\<forall>w. 0 \<le> w \<and> w < 2 ^ 31 \<and> w mod 2 ^ 24 = v mod 2 ^ 24
            \<longrightarrow> getColor RGB w = getColor RGB v)"
proof (intro conjI allI impI)
  show "getColor RGB v = getColor RGB (v mod 2 ^ 24)"
    by (simp only: rgb_low24)
next
  fix w
  assume "0 \<le> w \<and> w < 2 ^ 31 \<and> w mod 2 ^ 24 = v mod 2 ^ 24"
  then have "getColor RGB (w mod 2 ^ 24) = getColor RGB (v mod 2 ^ 24)"
    by simp
  then show "getColor RGB w = getColor RGB v"
    by (simp only: rgb_low24)
qed

theorem getColor_rgb_low_24_bits_witness:
  "(0::int) \<le> 0x7F123456 \<and> (0x7F123456::int) < 2 ^ 31
   \<and> getColor RGB 0x7F123456 = getColor RGB 0x123456"
proof -
  have h: "(0::int) \<le> 0x7F123456" "(0x7F123456::int) < 2 ^ 31"
    by simp_all
  have low: "(0x7F123456::int) mod 2 ^ 24 = 0x123456"
    by simp
  from getColor_rgb_low_24_bits [OF h]
  have "getColor RGB 0x7F123456 = getColor RGB (0x7F123456 mod 2 ^ 24)"
    by (rule conjunct1)
  then have "getColor RGB 0x7F123456 = getColor RGB 0x123456"
    by (simp only: low)
  with h show ?thesis
    by (intro conjI)
qed

text \<open>
  C9: on the documented domain, PALETTE with a value in [0,256) or RGB with a 24-bit
  value, the result is a string of exactly seven characters: \<open>#\<close> and then six lower-case
  hexadecimal digits, two for each channel.
\<close>

theorem getColor_seven_characters:
  assumes "(m = PALETTE \<and> 0 \<le> v \<and> v < 256) \<or> (m = RGB \<and> 0 \<le> v \<and> v < 2 ^ 24)"
  shows "\<exists>s ds. getColor m v = Str s \<and> length s = 7 \<and> s = CHR ''#'' # ds \<and> length ds = 6
            \<and> set ds \<subseteq> set ''0123456789abcdef''"
proof -
  have "\<exists>ds. getColor m v = Str (CHR ''#'' # ds) \<and> length ds = 6 \<and> set ds \<subseteq> hexDigits"
  proof -
    consider "m = PALETTE" "0 \<le> v" "v < 16" | "m = PALETTE" "16 \<le> v" "v < 232"
      | "m = PALETTE" "232 \<le> v" "v < 256" | "m = RGB"
      using assms by fastforce
    then show ?thesis
    proof cases
      case 1
      then show ?thesis by (simp only: ansi_shape)
    next
      case 2
      then show ?thesis by (simp only: cube_shape)
    next
      case 3
      then show ?thesis by (simp only: gray_shape)
    next
      case 4
      then show ?thesis by (simp only: rgb_shape)
    qed
  qed
  then obtain ds
    where "getColor m v = Str (CHR ''#'' # ds)" "length ds = 6" "set ds \<subseteq> hexDigits"
    by blast
  then show ?thesis
    by (simp add: hexDigits_def)
qed

theorem getColor_seven_characters_witness:
  "((PALETTE = PALETTE \<and> (0::int) \<le> 200 \<and> (200::int) < 256)
      \<or> (PALETTE = RGB \<and> (0::int) \<le> 200 \<and> (200::int) < 2 ^ 24))
   \<and> (\<exists>s ds. getColor PALETTE 200 = Str s \<and> length s = 7 \<and> s = CHR ''#'' # ds \<and> length ds = 6
            \<and> set ds \<subseteq> set ''0123456789abcdef'')
   \<and> ((RGB = PALETTE \<and> (0::int) \<le> 0xFF8000 \<and> (0xFF8000::int) < 256)
      \<or> (RGB = RGB \<and> (0::int) \<le> 0xFF8000 \<and> (0xFF8000::int) < 2 ^ 24))
   \<and> (\<exists>s ds. getColor RGB 0xFF8000 = Str s \<and> length s = 7 \<and> s = CHR ''#'' # ds \<and> length ds = 6
            \<and> set ds \<subseteq> set ''0123456789abcdef'')"
proof -
  have p: "(PALETTE = PALETTE \<and> (0::int) \<le> 200 \<and> (200::int) < 256)
      \<or> (PALETTE = RGB \<and> (0::int) \<le> 200 \<and> (200::int) < 2 ^ 24)"
    by simp
  have r: "(RGB = PALETTE \<and> (0::int) \<le> 0xFF8000 \<and> (0xFF8000::int) < 256)
      \<or> (RGB = RGB \<and> (0::int) \<le> 0xFF8000 \<and> (0xFF8000::int) < 2 ^ 24)"
    by simp
  from getColor_seven_characters [OF p] getColor_seven_characters [OF r] p r show ?thesis
    by (intro conjI)
qed

section \<open>The cell style extractor\<close>

text \<open>
  C7: the class list is the space-joined list of the class tokens of the attributes that
  hold, in the order bold, italic, dim, underline, strikethrough, blink, invisible, each
  token kept or left out by its own attribute only; a cell with just the bold attribute
  has the class list \<open>xterm-bold\<close>.
\<close>

theorem prepare_classList_tokens:
  "classList (prepareCellForDomRenderer c) = join '' '' (spec_classTokens c)
   \<and> (isBold c \<and> \<not> isItalic c \<and> \<not> isDim c \<and> \<not> isUnderline c \<and> \<not> isStrikethrough c
        \<and> \<not> isBlink c \<and> \<not> isInvisible c
      \<longrightarrow> classList (prepareCellForDomRenderer c) = ''xterm-bold'')"
  by (simp add: prepare_classList spec_classTokens_def)

theorem prepare_classList_tokens_witness:
  "isBold (blankCell\<lparr>isBold := True\<rparr>) \<and> \<not> isItalic (blankCell\<lparr>isBold := True\<rparr>)
   \<and> \<not> isDim (blankCell\<lparr>isBold := True\<rparr>) \<and> \<not> isUnderline (blankCell\<lparr>isBold := True\<rparr>)
   \<and> \<not> isStrikethrough (blankCell\<lparr>isBold := True\<rparr>) \<and> \<not> isBlink (blankCell\<lparr>isBold := True\<rparr>)
   \<and> \<not> isInvisible (blankCell\<lparr>isBold := True\<rparr>)
   \<and> classList (prepareCellForDomRenderer (blankCell\<lparr>isBold := True\<rparr>)) = ''xterm-bold''
   \<and> classList (prepareCellForDomRenderer
         (blankCell\<lparr>isBold := True, isUnderline := True, isInvisible := True\<rparr>))
       = ''xterm-bold xterm-underline xterm-invisible''"
  using prepare_classList_tokens [of "blankCell\<lparr>isBold := True\<rparr>"]
        prepare_classList_tokens
          [of "blankCell\<lparr>isBold := True, isUnderline := True, isInvisible := True\<rparr>"]
  by (simp add: blankCell_def spec_classTokens_def)

text \<open>
  C8: with \<open>fg\<close> and \<open>bg\<close> the resolved foreground and background colours, the style is
  \<open>color: fg; background-color: bg\<close> when both are non-empty strings, the one entry of the
  non-empty one when only one is, and empty when neither is (an empty or undefined colour
  gives no entry); the text content is the cell's characters. A cell with foreground mode
  DEFAULT and background PALETTE 1 has the style \<open>background-color: #cd0000\<close>.
\<close>

theorem prepare_style_and_text:
  "(let fg = getColor (getFgColorMode c) (getFgColor c);
        bg = getColor (getBgColorMode c) (getBgColor c);
        r = prepareCellForDomRenderer c
    in (\<forall>f b. fg = Str f \<and> f \<noteq> [] \<and> bg = Str b \<and> b \<noteq> []
            \<longrightarrow> style r = ''color: '' @ f @ ''; '' @ ''background-color: '' @ b)
     \<and> (\<forall>f. fg = Str f \<and> f \<noteq> [] \<and> \<not> truthy bg \<longrightarrow> style r = ''color: '' @ f)
     \<and> (\<forall>b. \<not> truthy fg \<and> bg = Str b \<and> b \<noteq> [] \<longrightarrow> style r = ''background-color: '' @ b)
     \<and> (\<not> truthy fg \<and> \<not> truthy bg \<longrightarrow> style r = '''')
     \<and> textContent r = getChars c)
   \<and> (getFgColorMode c = DEFAULT \<and> getBgColorMode c = PALETTE \<and> getBgColor c = 1
        \<longrightarrow> style (prepareCellForDomRenderer c) = ''background-color: #cd0000'')"
proof -
  have ex: "getColor DEFAULT (getFgColor c) = Str ''''" "getColor PALETTE 1 = Str ''#cd0000''"
    by (simp_all add: getColor_def PALETTE_def DEFAULT_def colorPalette_def)
  show ?thesis
    unfolding Let_def prepare_style prepare_textContent
    by (auto simp: ex)
qed

theorem prepare_style_and_text_witness:
  "getColor RGB 0xFF8000 = Str ''#ff8000'' \<and> getColor PALETTE 1 = Str ''#cd0000''
   \<and> getColor PALETTE 9 = Str ''#ff0000'' \<and> \<not> truthy (getColor PALETTE (- 1))
   \<and> \<not> truthy (getColor 0 0)
   \<and> style (prepareCellForDomRenderer
      (blankCell\<lparr>getFgColorMode := RGB, getFgColor := 0xFF8000,
                  getBgColorMode := PALETTE, getBgColor := 1\<rparr>))
     = ''color: #ff8000; background-color: #cd0000''
   \<and> style (prepareCellForDomRenderer (blankCell\<lparr>getFgColorMode := PALETTE, getFgColor := 9\<rparr>))
     = ''color: #ff0000''
   \<and> style (prepareCellForDomRenderer (blankCell\<lparr>getBgColorMode := PALETTE, getBgColor := 1\<rparr>))
     = ''background-color: #cd0000''
   \<and> style (prepareCellForDomRenderer (blankCell\<lparr>getFgColorMode := PALETTE, getFgColor := - 1\<rparr>))
     = ''''
   \<and> textContent (prepareCellForDomRenderer blankCell) = ''x''"
  using prepare_style_and_text
          [of "blankCell\<lparr>getFgColorMode := RGB, getFgColor := 0xFF8000,
                         getBgColorMode := PALETTE, getBgColor := 1\<rparr>"]
        prepare_style_and_text [of "blankCell\<lparr>getFgColorMode := PALETTE, getFgColor := 9\<rparr>"]
        prepare_style_and_text [of "blankCell\<lparr>getBgColorMode := PALETTE, getBgColor := 1\<rparr>"]
        prepare_style_and_text [of "blankCell\<lparr>getFgColorMode := PALETTE, getFgColor := - 1\<rparr>"]
        prepare_style_and_text [of blankCell]
  by (simp add: Let_def blankCell_def sample_colours)

end
